theory Spec2Isabelle
  imports Main
begin

section \<open>The filter compiler: parseWhere\<close>

text \<open>
  The conditions of a where clause. The operator is one of the ten string literals
  that the \<^verbatim>\<open>switch\<close> of parseWhere has a case for, or \<open>Op_unmatched\<close>: an
  operator that matches none of the cases (the field is absent, or holds a literal
  such as \<open>not_in\<close> that the \<^verbatim>\<open>switch\<close>, which has no default, does not know). A value is a
  string, a number, a boolean, or an array of these, as in the data model of the
  specification (the type \<^verbatim>\<open>Where\<close> itself belongs to the host framework). The
  type \<open>'n\<close> stands for the host language's numbers.
\<close>

datatype operator =
  Op_eq | Op_ne | Op_in | Op_contains | Op_starts_with | Op_ends_with
  | Op_gt | Op_gte | Op_lt | Op_lte | Op_unmatched

datatype 'n prim = Str string | Num 'n | Bool bool

datatype 'n jsvalue = Prim "'n prim" | Array "'n prim list"

record 'n Where =
  field :: string
  operator :: operator
  "value" :: "'n jsvalue"

text \<open>
  \<^verbatim>\<open>Array.prototype.join\<close>: the elements separated by \<open>sep\<close>, nothing before
  the first and nothing after the last; the empty string for the empty array.
\<close>

fun join :: "string \<Rightarrow> string list \<Rightarrow> string" where
  "join sep [] = []"
| "join sep [x] = x"
| "join sep (x # y # ys) = x @ sep @ join sep (y # ys)"

text \<open>
  What a template literal \<^verbatim>\<open>${v}\<close> (and \<open>join\<close>, for an element) makes of a
  value: a string is itself, a boolean is \<open>true\<close> or \<open>false\<close>, an array is its
  elements joined by a comma. The text of a number is the host language's default
  stringification, the parameter \<open>numberToString\<close>.
\<close>

fun toString :: "('n \<Rightarrow> string) \<Rightarrow> 'n prim \<Rightarrow> string" where
  "toString numberToString (Str s) = s"
| "toString numberToString (Num n) = numberToString n"
| "toString numberToString (Bool b) = (if b then ''true'' else ''false'')"

fun valueToString :: "('n \<Rightarrow> string) \<Rightarrow> 'n jsvalue \<Rightarrow> string" where
  "valueToString numberToString (Prim p) = toString numberToString p"
| "valueToString numberToString (Array vs) = join '','' (map (toString numberToString) vs)"

text \<open>The template \<^verbatim>\<open>`"${s}"`\<close>.\<close>

definition quoted :: "string \<Rightarrow> string" where
  \<open>quoted s = ''"'' @ s @ ''"''\<close>

text \<open>
  \<^verbatim>\<open>typeof v === "string" ? `"${v}"` : v\<close>, then stringified by the template or
  the join that receives it: line 60 for the value of a condition, line 71 for an
  element of an array.
\<close>

fun quoteIfString :: "('n \<Rightarrow> string) \<Rightarrow> 'n prim \<Rightarrow> string" where
  "quoteIfString numberToString (Str s) = quoted s"
| "quoteIfString numberToString p = toString numberToString p"

fun valueText :: "('n \<Rightarrow> string) \<Rightarrow> 'n jsvalue \<Rightarrow> string" where
  "valueText numberToString (Prim (Str s)) = quoted s"
| "valueText numberToString v = valueToString numberToString v"

text \<open>
  One turn of the loop of parseWhere (lines 58 to 97): \<open>filters\<close> is the array built
  so far, \<^verbatim>\<open>push\<close> appends at its end. The \<open>in\<close> case pushes only for an array,
  and an operator that no case matches falls through the \<^verbatim>\<open>switch\<close> and pushes nothing.
\<close>

definition pushClause :: "('n \<Rightarrow> string) \<Rightarrow> string list \<Rightarrow> 'n Where \<Rightarrow> string list" where
  \<open>pushClause numberToString filters item =
    (let fld = field item;
         v = valueText numberToString (value item);
         raw = valueToString numberToString (value item)
     in case operator item of
          Op_eq \<Rightarrow> filters @ [fld @ '' = '' @ v]
        | Op_ne \<Rightarrow> filters @ [fld @ '' != '' @ v]
        | Op_in \<Rightarrow>
            (case value item of
               Array vs \<Rightarrow>
                 filters @ [fld @ '' ?~ ['' @
                   join '', '' (map (quoteIfString numberToString) vs) @ '']'']
             | Prim p \<Rightarrow> filters)
        | Op_contains \<Rightarrow> filters @ [fld @ '' ~ "'' @ raw @ ''"'']
        | Op_starts_with \<Rightarrow> filters @ [fld @ '' ~ "'' @ raw @ ''%"'']
        | Op_ends_with \<Rightarrow> filters @ [fld @ '' ~ "%'' @ raw @ ''"'']
        | Op_gt \<Rightarrow> filters @ [fld @ '' > '' @ v]
        | Op_gte \<Rightarrow> filters @ [fld @ '' >= '' @ v]
        | Op_lt \<Rightarrow> filters @ [fld @ '' < '' @ v]
        | Op_lte \<Rightarrow> filters @ [fld @ '' <= '' @ v]
        | Op_unmatched \<Rightarrow> filters)\<close>

text \<open>
  parseWhere: the argument is optional (\<open>None\<close> is the absent argument); the loop
  runs over the conditions from left to right, starting from the empty array.
\<close>

definition parseWhere :: "('n \<Rightarrow> string) \<Rightarrow> 'n Where list option \<Rightarrow> string" where
  "parseWhere numberToString where' =
    (case where' of
       None \<Rightarrow> ''''
     | Some ws \<Rightarrow>
         if length ws = 0 then ''''
         else join '' && '' (foldl (pushClause numberToString) [] ws))"

text \<open>The clauses one condition contributes: what its turn of the loop pushes.\<close>

definition clauses :: "('n \<Rightarrow> string) \<Rightarrow> 'n Where \<Rightarrow> string list" where
  "clauses numberToString item = pushClause numberToString [] item"

text \<open>\<^verbatim>\<open>Array.isArray\<close> on a value of a condition.\<close>

fun isArray :: "'n jsvalue \<Rightarrow> bool" where
  "isArray (Array vs) = True"
| "isArray (Prim p) = False"

text \<open>
  The rendering rule in the words of the specification: a string is double-quoted, a
  number or a boolean is its literal text, unquoted.
\<close>

definition rendered :: "('n \<Rightarrow> string) \<Rightarrow> 'n prim \<Rightarrow> string" where
  "rendered numberToString p =
    (case p of
       Str s \<Rightarrow> quoted s
     | Num n \<Rightarrow> numberToString n
     | Bool b \<Rightarrow> (if b then ''true'' else ''false''))"

text \<open>
  The literal textual form of a value, in the words of the specification: a string
  is its characters, a number its default stringification, a boolean \<open>true\<close> or
  \<open>false\<close>; an array is the literal texts of its elements with a comma between them.
\<close>

definition literalText :: "('n \<Rightarrow> string) \<Rightarrow> 'n jsvalue \<Rightarrow> string" where
  "literalText numberToString v =
    (case v of
       Prim (Str s) \<Rightarrow> s
     | Prim (Num n) \<Rightarrow> numberToString n
     | Prim (Bool b) \<Rightarrow> (if b then ''true'' else ''false'')
     | Array vs \<Rightarrow>
         join '',''
           (map (\<lambda>p. case p of
                        Str s \<Rightarrow> s
                      | Num n \<Rightarrow> numberToString n
                      | Bool b \<Rightarrow> (if b then ''true'' else ''false'')) vs))"

text \<open>
  The comparison token of the six operators that compare the field with the value;
  the others have none.
\<close>

fun comparator :: "operator \<Rightarrow> string option" where
  "comparator Op_eq = Some ''=''"
| "comparator Op_ne = Some ''!=''"
| "comparator Op_gt = Some ''>''"
| "comparator Op_gte = Some ''>=''"
| "comparator Op_lt = Some ''<''"
| "comparator Op_lte = Some ''<=''"
| "comparator Op_in = None"
| "comparator Op_contains = None"
| "comparator Op_starts_with = None"
| "comparator Op_ends_with = None"
| "comparator Op_unmatched = None"

text \<open>
  Decimal digits of an integer, for the examples: the stringification of the host
  language on the integers that the tests of the repository use.
\<close>

function digits :: "nat \<Rightarrow> string" where
  "digits n =
    (if n < 10 then [char_of (48 + n)]
     else digits (n div 10) @ [char_of (48 + n mod 10)])"
  by pat_completeness auto
termination
  by (relation "measure id") auto

declare digits.simps [simp del]

definition decimal :: "int \<Rightarrow> string" where
  "decimal i = (if i < 0 then ''-'' @ digits (nat (- i)) else digits (nat i))"

text \<open>The conditions that the tests and the examples of the specification use.\<close>

definition status_eq_active :: "int Where" where
  "status_eq_active = \<lparr>field = ''status'', operator = Op_eq, value = Prim (Str ''active'')\<rparr>"

definition age_gte_18 :: "int Where" where
  "age_gte_18 = \<lparr>field = ''age'', operator = Op_gte, value = Prim (Num 18)\<rparr>"

definition id_in_123 :: "int Where" where
  "id_in_123 = \<lparr>field = ''id'', operator = Op_in, value = Array [Str ''1'', Str ''2'', Str ''3'']\<rparr>"

definition id_in_scalar :: "int Where" where
  "id_in_scalar = \<lparr>field = ''id'', operator = Op_in, value = Prim (Str ''1'')\<rparr>"

definition age_contains_42 :: "int Where" where
  "age_contains_42 = \<lparr>field = ''age'', operator = Op_contains, value = Prim (Num 42)\<rparr>"

definition tags_eq_empty :: "int Where" where
  "tags_eq_empty = \<lparr>field = ''tags'', operator = Op_eq, value = Array []\<rparr>"

definition role_unmatched :: "int Where" where
  "role_unmatched = \<lparr>field = ''role'', operator = Op_unmatched, value = Prim (Str ''admin'')\<rparr>"

section \<open>The backend client\<close>

text \<open>
  Modelled from the spec: the client library of the backend (the \<^verbatim>\<open>pocketbase\<close>
  package) is not part of the repository; the adapter needs of it, per named collection,
  \<^verbatim>\<open>create(payload)\<close>, \<^verbatim>\<open>getList(page, pageSize, {filter?, sort?}) -> {items, totalItems}\<close>,
  \<^verbatim>\<open>update(id, payload)\<close>, \<^verbatim>\<open>delete(id)\<close>, and a session object with
  \<^verbatim>\<open>token\<close>, \<^verbatim>\<open>isValid\<close>, \<^verbatim>\<open>save(token, model)\<close> and a login by
  email and password. It is a parameter of the model: a record of functions over the
  remote record store \<open>'db\<close>, each reading the token of the session it is called
  with. A call that throws returns \<open>Inl\<close> of what it throws. \<open>coll_getList\<close> is a read
  request: it answers from the store and leaves it as it is. The three write requests
  return the store they leave behind, also when they throw. The arguments of a
  collection request are the store, the token, the name of the collection, and then
  those of the call; \<open>isValid\<close> is \<^verbatim>\<open>authStore.isValid\<close> as a function of the
  token, and a login that succeeds returns the token that the client then keeps.

  A record is a mapping from field names to values; \<^verbatim>\<open>record.id\<close> is its
  value at \<open>''id''\<close>.
\<close>

type_synonym 'v pbRecord = "string \<Rightarrow> 'v option"

record 'v ListResult =
  items :: "'v pbRecord list"
  totalItems :: int

record ('db, 'v, 'e) PocketBase =
  isValid :: "string \<Rightarrow> bool"
  authWithPassword :: "'db \<Rightarrow> string \<Rightarrow> string \<Rightarrow> string \<Rightarrow> string \<Rightarrow> 'e + string"
  coll_create :: "'db \<Rightarrow> string \<Rightarrow> string \<Rightarrow> 'v pbRecord \<Rightarrow> ('e + 'v pbRecord) \<times> 'db"
  coll_getList :: "'db \<Rightarrow> string \<Rightarrow> string \<Rightarrow> int \<Rightarrow> int \<Rightarrow> string option \<Rightarrow> string option
    \<Rightarrow> 'e + 'v ListResult"
  coll_update :: "'db \<Rightarrow> string \<Rightarrow> string \<Rightarrow> 'v option \<Rightarrow> 'v pbRecord \<Rightarrow> ('e + 'v pbRecord) \<times> 'db"
  coll_delete :: "'db \<Rightarrow> string \<Rightarrow> string \<Rightarrow> 'v option \<Rightarrow> ('e + unit) \<times> 'db"

text \<open>
  The calls the adapter makes on the client, in the order it makes them: a log kept
  beside the state, which no function of the adapter reads.
\<close>

datatype 'v call =
    Call_save string
  | Call_authWithPassword string string string
  | Call_create string "'v pbRecord"
  | Call_getList string int int "string option" "string option"
  | Call_update string "'v option" "'v pbRecord"
  | Call_delete string "'v option"

text \<open>
  The state the operations run on: the remote record store, the token of the
  session kept in the client handle (\<^verbatim>\<open>pb.authStore.token\<close>), and the log.
\<close>

record ('db, 'v) handle =
  store :: 'db
  authStore_token :: string
  calls :: "'v call list"

text \<open>
  The \<^verbatim>\<open>pb\<close> option of the configuration: a live client instance, or connection
  parameters with optional credentials and token.
\<close>

datatype pbConfig =
    Instance
  | Params (url: string) (adminEmail: "string option") (adminPassword: "string option")
      (token: "string option")

text \<open>
  What the closure of pocketBaseAdapter holds and what the host framework hands to
  it: the client, the configuration, the resolution of a model name to a collection
  name, and the host language's stringification of numbers. The debug log hook and the
  writes to the console are not modelled.
\<close>

record ('db, 'v, 'e, 'n) adapter =
  pb :: "('db, 'v, 'e) PocketBase"
  pbConfig :: pbConfig
  getModelName :: "string \<Rightarrow> string"
  numberText :: "'n \<Rightarrow> string"

text \<open>The calls on the client, each entered into the log.\<close>

definition call_save :: "string \<Rightarrow> ('db, 'v) handle \<Rightarrow> ('db, 'v) handle" where
  "call_save t h = h\<lparr>authStore_token := t, calls := calls h @ [Call_save t]\<rparr>"

definition call_authWithPassword ::
  "('db, 'v, 'e, 'n) adapter \<Rightarrow> string \<Rightarrow> string \<Rightarrow> string \<Rightarrow> ('db, 'v) handle
    \<Rightarrow> ('e + unit) \<times> ('db, 'v) handle" where
  "call_authWithPassword a collectionName email password h =
    (let h' = h\<lparr>calls := calls h @ [Call_authWithPassword collectionName email password]\<rparr>
     in case authWithPassword (pb a) (store h) (authStore_token h) collectionName email password of
          Inl error \<Rightarrow> (Inl error, h')
        | Inr t \<Rightarrow> (Inr (), h'\<lparr>authStore_token := t\<rparr>))"

definition call_create ::
  "('db, 'v, 'e, 'n) adapter \<Rightarrow> string \<Rightarrow> 'v pbRecord \<Rightarrow> ('db, 'v) handle
    \<Rightarrow> ('e + 'v pbRecord) \<times> ('db, 'v) handle" where
  "call_create a collectionName data h =
    (case coll_create (pb a) (store h) (authStore_token h) collectionName data of
       (r, db') \<Rightarrow> (r, h\<lparr>store := db', calls := calls h @ [Call_create collectionName data]\<rparr>))"

definition call_getList ::
  "('db, 'v, 'e, 'n) adapter \<Rightarrow> string \<Rightarrow> int \<Rightarrow> int \<Rightarrow> string option \<Rightarrow> string option
    \<Rightarrow> ('db, 'v) handle \<Rightarrow> ('e + 'v ListResult) \<times> ('db, 'v) handle" where
  "call_getList a collectionName page perPage filter' sort' h =
    (coll_getList (pb a) (store h) (authStore_token h) collectionName page perPage filter' sort',
     h\<lparr>calls := calls h @ [Call_getList collectionName page perPage filter' sort']\<rparr>)"

definition call_update ::
  "('db, 'v, 'e, 'n) adapter \<Rightarrow> string \<Rightarrow> 'v option \<Rightarrow> 'v pbRecord \<Rightarrow> ('db, 'v) handle
    \<Rightarrow> ('e + 'v pbRecord) \<times> ('db, 'v) handle" where
  "call_update a collectionName rid data h =
    (case coll_update (pb a) (store h) (authStore_token h) collectionName rid data of
       (r, db') \<Rightarrow> (r, h\<lparr>store := db', calls := calls h @ [Call_update collectionName rid data]\<rparr>))"

definition call_delete ::
  "('db, 'v, 'e, 'n) adapter \<Rightarrow> string \<Rightarrow> 'v option \<Rightarrow> ('db, 'v) handle
    \<Rightarrow> ('e + unit) \<times> ('db, 'v) handle" where
  "call_delete a collectionName rid h =
    (case coll_delete (pb a) (store h) (authStore_token h) collectionName rid of
       (r, db') \<Rightarrow> (r, h\<lparr>store := db', calls := calls h @ [Call_delete collectionName rid]\<rparr>))"

section \<open>The session bootstrap: ensureAuth\<close>

text \<open>
  The truthiness of an optional string: absent and empty are falsy. \<open>truthy x\<close> is
  the string when it is truthy.
\<close>

definition truthy :: "string option \<Rightarrow> string option" where
  "truthy x = (case x of None \<Rightarrow> None | Some s \<Rightarrow> if s = '''' then None else Some s)"

definition ensureAuth ::
  "('db, 'v, 'e, 'n) adapter \<Rightarrow> ('db, 'v) handle \<Rightarrow> ('e + unit) \<times> ('db, 'v) handle" where
  "ensureAuth a h =
    (case pbConfig a of
       Instance \<Rightarrow> (Inr (), h)
     | Params u email password tok \<Rightarrow>
         (case truthy tok of
            Some t \<Rightarrow>
              if authStore_token h \<noteq> t then (Inr (), call_save t h) else (Inr (), h)
          | None \<Rightarrow>
              (case (truthy email, truthy password) of
                 (Some e, Some p) \<Rightarrow>
                   if \<not> isValid (pb a) (authStore_token h)
                   then call_authWithPassword a ''_superusers'' e p h
                   else (Inr (), h)
               | _ \<Rightarrow> (Inr (), h))))"

section \<open>The operations of the adapter\<close>

text \<open>
  Every operation awaits \<open>ensureAuth\<close> first, outside its \<^verbatim>\<open>try\<close> block: what
  the bootstrap throws leaves the operation as it is. The body of the \<^verbatim>\<open>try\<close>
  follows; \<open>Inl\<close> is what the operation throws to its caller, \<open>Inr\<close> what it
  returns. \<^verbatim>\<open>null\<close> is \<open>None\<close>.
\<close>

text \<open>\<^verbatim>\<open>filter || undefined\<close>: the empty string is falsy.\<close>

definition orUndefined :: "string \<Rightarrow> string option" where
  "orUndefined s = (if s = '''' then None else Some s)"

text \<open>
  \<^verbatim>\<open>limit || 50\<close>: an absent limit and the limit 0 are falsy. Numbers of pages and
  offsets are integers here.
\<close>

definition orDefault :: "int option \<Rightarrow> int \<Rightarrow> int" where
  "orDefault limit d = (case limit of None \<Rightarrow> d | Some l \<Rightarrow> if l = 0 then d else l)"

definition create ::
  "('db, 'v, 'e, 'n) adapter \<Rightarrow> string \<Rightarrow> 'v pbRecord \<Rightarrow> ('db, 'v) handle
    \<Rightarrow> ('e + 'v pbRecord) \<times> ('db, 'v) handle" where
  "create a model data h =
    (case ensureAuth a h of
       (Inl e, h1) \<Rightarrow> (Inl e, h1)
     | (Inr u, h1) \<Rightarrow>
         (let collectionName = getModelName a model
          in case call_create a collectionName data h1 of
               (Inr record, h2) \<Rightarrow> (Inr record, h2)
             | (Inl error, h2) \<Rightarrow> (Inl error, h2)))"

definition findOne ::
  "('db, 'v, 'e, 'n) adapter \<Rightarrow> string \<Rightarrow> 'n Where list option \<Rightarrow> ('db, 'v) handle
    \<Rightarrow> ('e + 'v pbRecord option) \<times> ('db, 'v) handle" where
  "findOne a model where' h =
    (case ensureAuth a h of
       (Inl e, h1) \<Rightarrow> (Inl e, h1)
     | (Inr u, h1) \<Rightarrow>
         (let collectionName = getModelName a model;
              filter' = parseWhere (numberText a) where'
          in case call_getList a collectionName 1 1 (Some filter') None h1 of
               (Inr result, h2) \<Rightarrow>
                 (Inr (case items result of [] \<Rightarrow> None | r # rs \<Rightarrow> Some r), h2)
             | (Inl error, h2) \<Rightarrow> (Inr None, h2)))"

text \<open>The sort argument of findMany: one key, a leading \<open>-\<close> for descending.\<close>

datatype direction = Asc | Desc

record sortBy =
  sortField :: string
  direction :: direction

definition sortText :: "sortBy option \<Rightarrow> string option" where
  "sortText sortBy =
    (case sortBy of
       None \<Rightarrow> None
     | Some sb \<Rightarrow> Some ((if direction sb = Desc then ''-'' else '''') @ sortField sb))"

text \<open>
  Lines 192 and 193. The offset is falsy when absent or 0; \<^verbatim>\<open>Math.floor\<close> of the
  quotient of two integers is the floor division \<open>div\<close>.
\<close>

definition page :: "int option \<Rightarrow> int option \<Rightarrow> int" where
  "page offset limit =
    (case offset of
       None \<Rightarrow> 1
     | Some off \<Rightarrow> if off = 0 then 1 else off div (orDefault limit 50) + 1)"

definition perPage :: "int option \<Rightarrow> int" where
  "perPage limit = orDefault limit 50"

definition findMany ::
  "('db, 'v, 'e, 'n) adapter \<Rightarrow> string \<Rightarrow> 'n Where list option \<Rightarrow> int option \<Rightarrow> int option
    \<Rightarrow> sortBy option \<Rightarrow> ('db, 'v) handle \<Rightarrow> ('e + 'v pbRecord list) \<times> ('db, 'v) handle" where
  "findMany a model where' limit offset sortBy h =
    (case ensureAuth a h of
       (Inl e, h1) \<Rightarrow> (Inl e, h1)
     | (Inr u, h1) \<Rightarrow>
         (let collectionName = getModelName a model;
              filter' = parseWhere (numberText a) where'
          in case call_getList a collectionName (page offset limit) (perPage limit)
                    (orUndefined filter') (sortText sortBy) h1 of
               (Inr result, h2) \<Rightarrow> (Inr (items result), h2)
             | (Inl error, h2) \<Rightarrow> (Inr [], h2)))"

definition count ::
  "('db, 'v, 'e, 'n) adapter \<Rightarrow> string \<Rightarrow> 'n Where list option \<Rightarrow> ('db, 'v) handle
    \<Rightarrow> ('e + int) \<times> ('db, 'v) handle" where
  "count a model where' h =
    (case ensureAuth a h of
       (Inl e, h1) \<Rightarrow> (Inl e, h1)
     | (Inr u, h1) \<Rightarrow>
         (let collectionName = getModelName a model;
              filter' = parseWhere (numberText a) where'
          in case call_getList a collectionName 1 1 (orUndefined filter') None h1 of
               (Inr result, h2) \<Rightarrow> (Inr (totalItems result), h2)
             | (Inl error, h2) \<Rightarrow> (Inr 0, h2)))"

text \<open>
  update: the spread \<^verbatim>\<open>{ ...updated, ...update }\<close> is the map \<open>updated ++ upd\<close>,
  where the fields of the patch win.
\<close>

definition update ::
  "('db, 'v, 'e, 'n) adapter \<Rightarrow> string \<Rightarrow> 'n Where list option \<Rightarrow> 'v pbRecord
    \<Rightarrow> ('db, 'v) handle \<Rightarrow> ('e + 'v pbRecord option) \<times> ('db, 'v) handle" where
  "update a model where' upd h =
    (case ensureAuth a h of
       (Inl e, h1) \<Rightarrow> (Inl e, h1)
     | (Inr u, h1) \<Rightarrow>
         (let collectionName = getModelName a model;
              filter' = parseWhere (numberText a) where'
          in case call_getList a collectionName 1 1 (Some filter') None h1 of
               (Inl error, h2) \<Rightarrow> (Inr None, h2)
             | (Inr result, h2) \<Rightarrow>
                 (case items result of
                    [] \<Rightarrow> (Inr None, h2)
                  | record # rs \<Rightarrow>
                      (case call_update a collectionName (record ''id'') upd h2 of
                         (Inl error, h3) \<Rightarrow> (Inr None, h3)
                       | (Inr updated, h3) \<Rightarrow> (Inr (Some (updated ++ upd)), h3)))))"

text \<open>
  The loop of updateMany: one update call for each record, in order; a call that
  throws leaves the loop.
\<close>

fun updateLoop ::
  "('db, 'v, 'e, 'n) adapter \<Rightarrow> string \<Rightarrow> 'v pbRecord \<Rightarrow> 'v pbRecord list \<Rightarrow> nat
    \<Rightarrow> ('db, 'v) handle \<Rightarrow> ('e + nat) \<times> ('db, 'v) handle" where
  "updateLoop a collectionName upd [] n h = (Inr n, h)"
| "updateLoop a collectionName upd (record # rs) n h =
    (case call_update a collectionName (record ''id'') upd h of
       (Inl error, h') \<Rightarrow> (Inl error, h')
     | (Inr updated, h') \<Rightarrow> updateLoop a collectionName upd rs (n + 1) h')"

definition updateMany ::
  "('db, 'v, 'e, 'n) adapter \<Rightarrow> string \<Rightarrow> 'n Where list option \<Rightarrow> 'v pbRecord
    \<Rightarrow> ('db, 'v) handle \<Rightarrow> ('e + nat) \<times> ('db, 'v) handle" where
  "updateMany a model where' upd h =
    (case ensureAuth a h of
       (Inl e, h1) \<Rightarrow> (Inl e, h1)
     | (Inr u, h1) \<Rightarrow>
         (let collectionName = getModelName a model;
              filter' = parseWhere (numberText a) where'
          in case call_getList a collectionName 1 500 (orUndefined filter') None h1 of
               (Inl error, h2) \<Rightarrow> (Inr 0, h2)
             | (Inr result, h2) \<Rightarrow>
                 (case updateLoop a collectionName upd (items result) 0 h2 of
                    (Inl error, h3) \<Rightarrow> (Inr 0, h3)
                  | (Inr n, h3) \<Rightarrow> (Inr n, h3))))"

definition delete ::
  "('db, 'v, 'e, 'n) adapter \<Rightarrow> string \<Rightarrow> 'n Where list option \<Rightarrow> ('db, 'v) handle
    \<Rightarrow> ('e + unit) \<times> ('db, 'v) handle" where
  "delete a model where' h =
    (case ensureAuth a h of
       (Inl e, h1) \<Rightarrow> (Inl e, h1)
     | (Inr u, h1) \<Rightarrow>
         (let collectionName = getModelName a model;
              filter' = parseWhere (numberText a) where'
          in case call_getList a collectionName 1 1 (Some filter') None h1 of
               (Inl error, h2) \<Rightarrow> (Inr (), h2)
             | (Inr result, h2) \<Rightarrow>
                 (case items result of
                    [] \<Rightarrow> (Inr (), h2)
                  | record # rs \<Rightarrow>
                      (case call_delete a collectionName (record ''id'') h2 of
                         (Inl error, h3) \<Rightarrow> (Inr (), h3)
                       | (Inr d, h3) \<Rightarrow> (Inr (), h3)))))"

fun deleteLoop ::
  "('db, 'v, 'e, 'n) adapter \<Rightarrow> string \<Rightarrow> 'v pbRecord list \<Rightarrow> nat
    \<Rightarrow> ('db, 'v) handle \<Rightarrow> ('e + nat) \<times> ('db, 'v) handle" where
  "deleteLoop a collectionName [] n h = (Inr n, h)"
| "deleteLoop a collectionName (record # rs) n h =
    (case call_delete a collectionName (record ''id'') h of
       (Inl error, h') \<Rightarrow> (Inl error, h')
     | (Inr d, h') \<Rightarrow> deleteLoop a collectionName rs (n + 1) h')"

definition deleteMany ::
  "('db, 'v, 'e, 'n) adapter \<Rightarrow> string \<Rightarrow> 'n Where list option \<Rightarrow> ('db, 'v) handle
    \<Rightarrow> ('e + nat) \<times> ('db, 'v) handle" where
  "deleteMany a model where' h =
    (case ensureAuth a h of
       (Inl e, h1) \<Rightarrow> (Inl e, h1)
     | (Inr u, h1) \<Rightarrow>
         (let collectionName = getModelName a model;
              filter' = parseWhere (numberText a) where'
          in case call_getList a collectionName 1 500 (orUndefined filter') None h1 of
               (Inl error, h2) \<Rightarrow> (Inr 0, h2)
             | (Inr result, h2) \<Rightarrow>
                 (case deleteLoop a collectionName (items result) 0 h2 of
                    (Inl error, h3) \<Rightarrow> (Inr 0, h3)
                  | (Inr n, h3) \<Rightarrow> (Inr n, h3))))"

text \<open>
  A caller's request, and a sequence of requests run one after the other on the
  same handle: the caller goes on whatever a request returned or threw.
\<close>

datatype ('v, 'n) request =
    Create string "'v pbRecord"
  | FindOne string "'n Where list option"
  | FindMany string "'n Where list option" "int option" "int option" "sortBy option"
  | Count string "'n Where list option"
  | Update string "'n Where list option" "'v pbRecord"
  | UpdateMany string "'n Where list option" "'v pbRecord"
  | Delete string "'n Where list option"
  | DeleteMany string "'n Where list option"

fun perform ::
  "('db, 'v, 'e, 'n) adapter \<Rightarrow> ('v, 'n) request \<Rightarrow> ('db, 'v) handle \<Rightarrow> ('db, 'v) handle" where
  "perform a (Create m d) h = snd (create a m d h)"
| "perform a (FindOne m w) h = snd (findOne a m w h)"
| "perform a (FindMany m w l off s) h = snd (findMany a m w l off s h)"
| "perform a (Count m w) h = snd (count a m w h)"
| "perform a (Update m w d) h = snd (update a m w d h)"
| "perform a (UpdateMany m w d) h = snd (updateMany a m w d h)"
| "perform a (Delete m w) h = snd (delete a m w h)"
| "perform a (DeleteMany m w) h = snd (deleteMany a m w h)"

fun run ::
  "('db, 'v, 'e, 'n) adapter \<Rightarrow> ('v, 'n) request list \<Rightarrow> ('db, 'v) handle \<Rightarrow> ('db, 'v) handle" where
  "run a [] h = h"
| "run a (r # rs) h = run a rs (perform a r h)"

text \<open>The kinds of call: the two of the bootstrap, and the three that write records.\<close>

fun isAuthCall :: "'v call \<Rightarrow> bool" where
  "isAuthCall (Call_save t) = True"
| "isAuthCall (Call_authWithPassword c e p) = True"
| "isAuthCall c = False"

fun isWriteCall :: "'v call \<Rightarrow> bool" where
  "isWriteCall (Call_create c d) = True"
| "isWriteCall (Call_update c i d) = True"
| "isWriteCall (Call_delete c i) = True"
| "isWriteCall c = False"

text \<open>
  The token and the bootstrap calls of a handle: what the session bootstrap alone
  may change.
\<close>

definition sessionOf :: "('db, 'v) handle \<Rightarrow> string \<times> 'v call list" where
  "sessionOf h = (authStore_token h, filter isAuthCall (calls h))"

section \<open>A client for the examples\<close>

text \<open>
  A client over a store that counts the writes applied to it. Every list request is
  answered by \<open>listAnswer\<close>; the write requests throw, and leave the store as it
  is, when \<open>writesFail\<close>. The login always succeeds.
\<close>

definition mock_pb :: "(string + string ListResult) \<Rightarrow> bool \<Rightarrow> (nat, string, string) PocketBase" where
  "mock_pb listAnswer writesFail =
    \<lparr>isValid = (\<lambda>t. t \<noteq> ''''),
     authWithPassword = (\<lambda>db t c e p. Inr ''jwt''),
     coll_create = (\<lambda>db t c d. if writesFail then (Inl ''create failed'', db) else (Inr d, db + 1)),
     coll_getList = (\<lambda>db t c pg pp f s. listAnswer),
     coll_update = (\<lambda>db t c i d. if writesFail then (Inl ''update failed'', db) else (Inr d, db + 1)),
     coll_delete = (\<lambda>db t c i. if writesFail then (Inl ''delete failed'', db) else (Inr (), db + 1))\<rparr>"

definition mock_adapter ::
  "pbConfig \<Rightarrow> (string + string ListResult) \<Rightarrow> bool \<Rightarrow> (nat, string, string, int) adapter" where
  "mock_adapter cfg listAnswer writesFail =
    \<lparr>pb = mock_pb listAnswer writesFail, pbConfig = cfg, getModelName = (\<lambda>m. m),
     numberText = decimal\<rparr>"

definition fresh :: "(nat, string) handle" where
  "fresh = \<lparr>store = 0, authStore_token = '''', calls = []\<rparr>"

definition user1 :: "string pbRecord" where
  "user1 = [''id'' \<mapsto> ''u1'', ''name'' \<mapsto> ''ann'']"

definition patch :: "string pbRecord" where
  "patch = [''name'' \<mapsto> ''bob'']"


text \<open>
  An adapter constructed from connection parameters with credentials, on a client
  whose login throws.
\<close>

definition locked_adapter ::
  "(string + string ListResult) \<Rightarrow> (nat, string, string, int) adapter" where
  "locked_adapter listAnswer =
    \<lparr>pb = (mock_pb listAnswer False)
       \<lparr>authWithPassword := (\<lambda>db t c e p. Inl ''login failed'')\<rparr>,
     pbConfig = Params ''http://127.0.0.1:8090'' (Some ''admin@example.com'') (Some ''secret'') None,
     getModelName = (\<lambda>m. m),
     numberText = decimal\<rparr>"


section \<open>Properties of the filter compiler\<close>

lemma pushClause_append: "pushClause ns acc w = acc @ clauses ns w"
  by (simp add: pushClause_def clauses_def Let_def split: operator.split jsvalue.split)

lemma foldl_pushClause: "foldl (pushClause ns) acc ws = acc @ concat (map (clauses ns) ws)"
proof (induction ws arbitrary: acc)
  case Nil
  show ?case by simp
next
  case (Cons w ws)
  have "foldl (pushClause ns) acc (w # ws) = foldl (pushClause ns) (pushClause ns acc w) ws"
    by simp
  also have "\<dots> = pushClause ns acc w @ concat (map (clauses ns) ws)"
    by (rule Cons.IH)
  also have "\<dots> = acc @ concat (map (clauses ns) (w # ws))"
    by (simp add: pushClause_append)
  finally show ?case .
qed

lemma parseWhere_Some: "parseWhere ns (Some ws) = join '' && '' (concat (map (clauses ns) ws))"
proof (cases "ws = []")
  case True
  then show ?thesis by (simp add: parseWhere_def)
next
  case False
  then show ?thesis by (simp add: parseWhere_def foldl_pushClause)
qed

lemma parseWhere_single: "parseWhere ns (Some [w]) = join '' && '' (clauses ns w)"
  by (simp add: parseWhere_Some)

lemma rendered_quoteIfString: "quoteIfString ns p = rendered ns p"
  by (cases p) (simp_all add: rendered_def)

lemma valueText_Prim: "valueText ns (Prim p) = rendered ns p"
  by (cases p) (simp_all add: rendered_def)

lemma clauses_compare:
  "clauses ns \<lparr>field = f, operator = Op_eq, value = v\<rparr> = [f @ '' = '' @ valueText ns v]"
  "clauses ns \<lparr>field = f, operator = Op_ne, value = v\<rparr> = [f @ '' != '' @ valueText ns v]"
  "clauses ns \<lparr>field = f, operator = Op_gt, value = v\<rparr> = [f @ '' > '' @ valueText ns v]"
  "clauses ns \<lparr>field = f, operator = Op_gte, value = v\<rparr> = [f @ '' >= '' @ valueText ns v]"
  "clauses ns \<lparr>field = f, operator = Op_lt, value = v\<rparr> = [f @ '' < '' @ valueText ns v]"
  "clauses ns \<lparr>field = f, operator = Op_lte, value = v\<rparr> = [f @ '' <= '' @ valueText ns v]"
  by (simp_all add: clauses_def pushClause_def)

lemma clauses_like:
  "clauses ns \<lparr>field = f, operator = Op_contains, value = v\<rparr> =
     [f @ '' ~ '' @ quoted (valueToString ns v)]"
  "clauses ns \<lparr>field = f, operator = Op_starts_with, value = v\<rparr> =
     [f @ '' ~ '' @ quoted (valueToString ns v @ ''%'')]"
  "clauses ns \<lparr>field = f, operator = Op_ends_with, value = v\<rparr> =
     [f @ '' ~ '' @ quoted (''%'' @ valueToString ns v)]"
  by (simp_all add: clauses_def pushClause_def quoted_def)

lemma clauses_in:
  "clauses ns \<lparr>field = f, operator = Op_in, value = Array vs\<rparr> =
     [f @ '' ?~ ['' @ join '', '' (map (rendered ns) vs) @ '']'']"
  "clauses ns \<lparr>field = f, operator = Op_in, value = Prim p\<rparr> = []"
  by (simp_all add: clauses_def pushClause_def rendered_quoteIfString cong: map_cong)

lemma clauses_in_skipped:
  "operator w = Op_in \<Longrightarrow> \<not> isArray (value w) \<Longrightarrow> clauses ns w = []"
  by (cases "value w") (simp_all add: clauses_def pushClause_def)

lemma length_clauses:
  "length (clauses ns w) =
    (if operator w = Op_unmatched \<or> operator w = Op_in \<and> \<not> isArray (value w) then 0 else 1)"
  by (cases "value w"; cases "operator w") (simp_all add: clauses_def pushClause_def)

lemma join_Cons: "join sep (c # cs) = c @ concat (map (\<lambda>d. sep @ d) cs)"
  by (induction cs arbitrary: c) simp_all

lemma join_snoc: "join sep (cs @ [c]) = concat (map (\<lambda>d. d @ sep) cs) @ c"
proof (induction cs)
  case Nil
  show ?case by simp
next
  case (Cons d ds)
  then show ?case by (cases ds) simp_all
qed

lemma literalText_valueToString: "valueToString ns v = literalText ns v"
proof (cases v)
  case (Prim p)
  then show ?thesis by (cases p) (simp_all add: literalText_def)
next
  case (Array vs)
  have "toString ns =
      (\<lambda>p. case p of Str s \<Rightarrow> s | Num n \<Rightarrow> ns n
             | Bool b \<Rightarrow> (if b then ''true'' else ''false''))"
    by (rule ext) (simp split: prim.split)
  then show ?thesis by (simp add: Array literalText_def)
qed

lemma parseWhere_drop_empty:
  assumes "clauses ns w = []"
  shows "parseWhere ns (Some (xs @ w # ys)) = parseWhere ns (Some (xs @ ys))"
  using assms by (simp add: parseWhere_Some)

text \<open>
  C1. A list of one condition compiles to the template of its operator: \<open>field = value\<close>
  for eq, \<open>field != value\<close> for ne, \<open>field ?~ [v1, v2, ...]\<close> for in with an array
  (the elements separated by a comma and a space, each quoted if and only if it is a
  string), \<open>field ~ "value"\<close> for contains, \<open>field ~ "value%"\<close> for starts_with,
  \<open>field ~ "%value"\<close> for ends_with, and \<open>field > value\<close>, \<open>field >= value\<close>,
  \<open>field < value\<close>, \<open>field <= value\<close> for gt, gte, lt, lte, where a scalar value of
  eq, ne, gt, gte, lt, lte is double-quoted if and only if it is a string. The value
  \<open>["1","2","3"]\<close> on the field \<open>id\<close> gives \<open>id ?~ ["1", "2", "3"]\<close>.
\<close>

theorem parseWhere_single_condition_templates:
  \<open>parseWhere ns (Some [\<lparr>field = f, operator = Op_eq, value = Prim p\<rparr>]) = f @ '' = '' @ rendered ns p
   \<and> parseWhere ns (Some [\<lparr>field = f, operator = Op_ne, value = Prim p\<rparr>]) = f @ '' != '' @ rendered ns p
   \<and> parseWhere ns (Some [\<lparr>field = f, operator = Op_in, value = Array vs\<rparr>]) =
       f @ '' ?~ ['' @ join '', '' (map (rendered ns) vs) @ '']''
   \<and> parseWhere ns (Some [\<lparr>field = f, operator = Op_contains, value = v\<rparr>]) =
       f @ '' ~ "'' @ literalText ns v @ ''"''
   \<and> parseWhere ns (Some [\<lparr>field = f, operator = Op_starts_with, value = v\<rparr>]) =
       f @ '' ~ "'' @ literalText ns v @ ''%"''
   \<and> parseWhere ns (Some [\<lparr>field = f, operator = Op_ends_with, value = v\<rparr>]) =
       f @ '' ~ "%'' @ literalText ns v @ ''"''
   \<and> parseWhere ns (Some [\<lparr>field = f, operator = Op_gt, value = Prim p\<rparr>]) = f @ '' > '' @ rendered ns p
   \<and> parseWhere ns (Some [\<lparr>field = f, operator = Op_gte, value = Prim p\<rparr>]) = f @ '' >= '' @ rendered ns p
   \<and> parseWhere ns (Some [\<lparr>field = f, operator = Op_lt, value = Prim p\<rparr>]) = f @ '' < '' @ rendered ns p
   \<and> parseWhere ns (Some [\<lparr>field = f, operator = Op_lte, value = Prim p\<rparr>]) = f @ '' <= '' @ rendered ns p
   \<and> parseWhere decimal (Some [id_in_123]) = ''id ?~ ["1", "2", "3"]''
   \<and> parseWhere decimal
        (Some [\<lparr>field = ''email'', operator = Op_eq, value = Prim (Str ''test@example.com'')\<rparr>]) =
       ''email = "test@example.com"''
   \<and> parseWhere decimal
        (Some [\<lparr>field = ''status'', operator = Op_ne, value = Prim (Str ''active'')\<rparr>]) =
       ''status != "active"''
   \<and> parseWhere decimal
        (Some [\<lparr>field = ''name'', operator = Op_contains, value = Prim (Str ''john'')\<rparr>]) =
       ''name ~ "john"''
   \<and> parseWhere decimal
        (Some [\<lparr>field = ''email'', operator = Op_starts_with, value = Prim (Str ''admin'')\<rparr>]) =
       ''email ~ "admin%"''
   \<and> parseWhere decimal
        (Some [\<lparr>field = ''email'', operator = Op_ends_with, value = Prim (Str ''@example.com'')\<rparr>]) =
       ''email ~ "%@example.com"''
   \<and> parseWhere decimal
        (Some [\<lparr>field = ''age'', operator = Op_gt, value = Prim (Num 18)\<rparr>]) = ''age > 18''
   \<and> parseWhere decimal
        (Some [\<lparr>field = ''score'', operator = Op_gte, value = Prim (Num 100)\<rparr>]) = ''score >= 100''
   \<and> parseWhere decimal
        (Some [\<lparr>field = ''price'', operator = Op_lt, value = Prim (Num 50)\<rparr>]) = ''price < 50''
   \<and> parseWhere decimal
        (Some [\<lparr>field = ''quantity'', operator = Op_lte, value = Prim (Num 10)\<rparr>]) = ''quantity <= 10''
   \<and> parseWhere decimal
        (Some [\<lparr>field = ''count'', operator = Op_eq, value = Prim (Num 42)\<rparr>]) = ''count = 42''\<close>
proof -
  have ex: \<open>parseWhere decimal (Some [id_in_123]) = ''id ?~ ["1", "2", "3"]''\<close>
    by code_simp
  have tests:
    \<open>parseWhere decimal
        (Some [\<lparr>field = ''email'', operator = Op_eq, value = Prim (Str ''test@example.com'')\<rparr>]) =
       ''email = "test@example.com"''\<close>
    \<open>parseWhere decimal
        (Some [\<lparr>field = ''status'', operator = Op_ne, value = Prim (Str ''active'')\<rparr>]) =
       ''status != "active"''\<close>
    \<open>parseWhere decimal
        (Some [\<lparr>field = ''name'', operator = Op_contains, value = Prim (Str ''john'')\<rparr>]) =
       ''name ~ "john"''\<close>
    \<open>parseWhere decimal
        (Some [\<lparr>field = ''email'', operator = Op_starts_with, value = Prim (Str ''admin'')\<rparr>]) =
       ''email ~ "admin%"''\<close>
    \<open>parseWhere decimal
        (Some [\<lparr>field = ''email'', operator = Op_ends_with, value = Prim (Str ''@example.com'')\<rparr>]) =
       ''email ~ "%@example.com"''\<close>
    \<open>parseWhere decimal
        (Some [\<lparr>field = ''age'', operator = Op_gt, value = Prim (Num 18)\<rparr>]) = ''age > 18''\<close>
    \<open>parseWhere decimal
        (Some [\<lparr>field = ''score'', operator = Op_gte, value = Prim (Num 100)\<rparr>]) = ''score >= 100''\<close>
    \<open>parseWhere decimal
        (Some [\<lparr>field = ''price'', operator = Op_lt, value = Prim (Num 50)\<rparr>]) = ''price < 50''\<close>
    \<open>parseWhere decimal
        (Some [\<lparr>field = ''quantity'', operator = Op_lte, value = Prim (Num 10)\<rparr>]) = ''quantity <= 10''\<close>
    \<open>parseWhere decimal
        (Some [\<lparr>field = ''count'', operator = Op_eq, value = Prim (Num 42)\<rparr>]) = ''count = 42''\<close>
    by code_simp+
  have like: \<open>parseWhere ns (Some [\<lparr>field = f, operator = Op_contains, value = v\<rparr>]) =
       f @ '' ~ "'' @ literalText ns v @ ''"''\<close>
    \<open>parseWhere ns (Some [\<lparr>field = f, operator = Op_starts_with, value = v\<rparr>]) =
       f @ '' ~ "'' @ literalText ns v @ ''%"''\<close>
    \<open>parseWhere ns (Some [\<lparr>field = f, operator = Op_ends_with, value = v\<rparr>]) =
       f @ '' ~ "%'' @ literalText ns v @ ''"''\<close>
    by (simp_all add: parseWhere_single clauses_like quoted_def literalText_valueToString)
  show ?thesis
    by (intro conjI ex like tests)
      (simp_all add: parseWhere_single clauses_compare clauses_in valueText_Prim)
qed

text \<open>
  C2, as the code has it. The compiled filter is the clauses of the conditions, in the
  order of the conditions, with \<open> && \<close> between two neighbours; nothing is reordered
  and nothing is dropped as a duplicate. The join puts nothing before the first clause
  and nothing after the last, so the filter begins as its first clause begins and ends
  as its last clause ends. A condition gives exactly one clause, except a condition
  whose operator is in and whose value is not an array, and a condition whose operator
  is none of the ten of the \<^verbatim>\<open>switch\<close>, which give none. The absent and the
  empty list compile to the empty string, and \<open>[{status eq "active"}, {age gte 18}]\<close>
  compiles to \<open>status = "active" && age >= 18\<close>.
\<close>

theorem parseWhere_joins_clauses_in_order:
  \<open>parseWhere ns None = ''''
   \<and> parseWhere ns (Some []) = ''''
   \<and> parseWhere ns (Some ws) = join '' && '' (concat (map (clauses ns) ws))
   \<and> join '' && '' (c # cs) = c @ concat (map (\<lambda>d. '' && '' @ d) cs)
   \<and> join '' && '' (cs @ [c]) = concat (map (\<lambda>d. d @ '' && '') cs) @ c
   \<and> length (clauses ns w) =
       (if operator w = Op_unmatched \<or> operator w = Op_in \<and> \<not> isArray (value w) then 0 else 1)
   \<and> parseWhere decimal (Some [status_eq_active, age_gte_18]) = ''status = "active" && age >= 18''\<close>
proof -
  have ex: \<open>parseWhere decimal (Some [status_eq_active, age_gte_18]) =
      ''status = "active" && age >= 18''\<close>
    by code_simp
  have none: "parseWhere ns None = ''''" "parseWhere ns (Some []) = ''''"
    by (simp_all add: parseWhere_def)
  show ?thesis
    using ex none parseWhere_Some [of ns ws] length_clauses [of ns w]
      join_Cons [of "'' && ''" c cs] join_snoc [of "'' && ''" cs c] by blast
qed

text \<open>
  The claim C2 as it is written fails in three ways. The single condition
  \<open>{id in "1"}\<close>, whose value is not an array, is rendered to no clause, and of the
  two conditions \<open>[{status eq "active"}, {id in "1"}]\<close> only one clause is left. A
  condition whose operator the \<^verbatim>\<open>switch\<close> does not know is rendered to no clause
  either. And the filter can end with whitespace: \<open>{tags eq []}\<close> compiles to
  \<open>tags = \<close>, whose last character is a space.
\<close>

theorem parseWhere_one_clause_each_counterexample:
  \<open>clauses decimal id_in_scalar = []
   \<and> parseWhere decimal (Some [id_in_scalar]) = ''''
   \<and> parseWhere decimal (Some [status_eq_active, id_in_scalar]) = ''status = "active"''
   \<and> clauses decimal role_unmatched = []
   \<and> parseWhere decimal (Some [role_unmatched]) = ''''
   \<and> parseWhere decimal (Some [tags_eq_empty]) = ''tags = ''
   \<and> last (parseWhere decimal (Some [tags_eq_empty])) = CHR '' ''\<close>
  by code_simp

text \<open>
  C5. A condition whose operator is in and whose value is not an array produces no
  clause; the conditions before and after it compile as if it were not there.
\<close>

theorem parseWhere_in_without_array_skipped:
  assumes "operator w = Op_in" and "\<not> isArray (value w)"
  shows "clauses ns w = []
    \<and> parseWhere ns (Some (xs @ w # ys)) = parseWhere ns (Some (xs @ ys))"
  using assms by (simp add: clauses_in_skipped parseWhere_drop_empty)

theorem parseWhere_in_without_array_skipped_witness:
  \<open>operator id_in_scalar = Op_in \<and> \<not> isArray (value id_in_scalar)
   \<and> clauses decimal id_in_scalar = []
   \<and> parseWhere decimal (Some [status_eq_active, id_in_scalar, age_gte_18]) =
       ''status = "active" && age >= 18''\<close>
proof -
  have h1: "operator id_in_scalar = Op_in" and h2: "\<not> isArray (value id_in_scalar)"
    by (simp_all add: id_in_scalar_def)
  have ex: \<open>parseWhere decimal (Some [status_eq_active, age_gte_18]) =
      ''status = "active" && age >= 18''\<close>
    by code_simp
  from parseWhere_in_without_array_skipped [OF h1 h2, of decimal "[status_eq_active]" "[age_gte_18]"]
  show ?thesis using h1 h2 ex by simp
qed

text \<open>
  C6, as the code has it. For eq, ne, gt, gte, lt, lte a string value is rendered
  double-quoted and a number or a boolean unquoted, as its literal text; the elements
  of the array of in follow the same rule. For contains, starts_with and ends_with
  the text of the value stands between double quotes whatever its type, with the
  wildcard \<open>%\<close> inside the quotes: there a number is wrapped in double quotes too.
\<close>

theorem value_quoting_by_operator:
  assumes "comparator opr = Some tok"
  shows "clauses ns \<lparr>field = f, operator = opr, value = Prim p\<rparr> =
        [f @ '' '' @ tok @ '' '' @ rendered ns p]
    \<and> clauses ns \<lparr>field = f, operator = Op_in, value = Array vs\<rparr> =
        [f @ '' ?~ ['' @ join '', '' (map (rendered ns) vs) @ '']'']
    \<and> clauses ns \<lparr>field = f, operator = Op_contains, value = Prim p\<rparr> =
        [f @ '' ~ '' @ quoted (toString ns p)]
    \<and> clauses ns \<lparr>field = f, operator = Op_starts_with, value = Prim p\<rparr> =
        [f @ '' ~ '' @ quoted (toString ns p @ ''%'')]
    \<and> clauses ns \<lparr>field = f, operator = Op_ends_with, value = Prim p\<rparr> =
        [f @ '' ~ '' @ quoted (''%'' @ toString ns p)]"
proof -
  have cmp: "clauses ns \<lparr>field = f, operator = opr, value = Prim p\<rparr> =
      [f @ '' '' @ tok @ '' '' @ rendered ns p]"
    using assms by (cases opr) (auto simp add: clauses_compare valueText_Prim)
  show ?thesis
    using cmp by (simp add: clauses_in clauses_like)
qed

theorem value_quoting_by_operator_witness:
  \<open>comparator Op_gte = Some ''>=''
   \<and> clauses decimal \<lparr>field = ''age'', operator = Op_gte, value = Prim (Num 18)\<rparr> = [''age >= 18'']
   \<and> clauses decimal \<lparr>field = ''age'', operator = Op_contains, value = Prim (Num 18)\<rparr> =
       [''age ~ "18"'']\<close>
proof -
  have h: "comparator Op_gte = Some ''>=''" by simp
  have d: "decimal 18 = ''18''" by code_simp
  from value_quoting_by_operator [OF h, of decimal "''age''" "Num 18"]
  show ?thesis using h d by (simp add: rendered_def quoted_def)
qed

text \<open>
  The claim C6 as it is written fails for contains: the number 42 is rendered as
  \<open>age ~ "42"\<close>, between double quotes, and not as the unquoted \<open>age ~ 42\<close>.
\<close>

theorem numeric_value_quoted_counterexample:
  \<open>parseWhere decimal (Some [age_contains_42]) = ''age ~ "42"''
   \<and> parseWhere decimal (Some [age_contains_42]) \<noteq> ''age ~ 42''\<close>
  by code_simp

section \<open>Properties of the session bootstrap\<close>

lemma ensureAuth_Instance: "pbConfig a = Instance \<Longrightarrow> ensureAuth a h = (Inr (), h)"
  by (simp add: ensureAuth_def)

lemma store_call_authWithPassword:
  "store (snd (call_authWithPassword a c e p h)) = store h"
  by (simp add: call_authWithPassword_def Let_def split: sum.split)

lemma writes_call_authWithPassword:
  "filter isWriteCall (calls (snd (call_authWithPassword a c e p h))) = filter isWriteCall (calls h)"
  by (simp add: call_authWithPassword_def Let_def split: sum.split)

lemma ensureAuth_store: "store (snd (ensureAuth a h)) = store h"
  by (simp add: ensureAuth_def call_save_def store_call_authWithPassword
      split: pbConfig.split option.split)

lemma ensureAuth_writes:
  "filter isWriteCall (calls (snd (ensureAuth a h))) = filter isWriteCall (calls h)"
  by (simp add: ensureAuth_def call_save_def writes_call_authWithPassword
      split: pbConfig.split option.split)

lemma mock_boot: "ensureAuth (mock_adapter Instance la fails) h = (Inr (), h)"
  by (simp add: ensureAuth_def mock_adapter_def)

text \<open>
  What the bootstrap throws is thrown by the operation: the await stands before the
  \<^verbatim>\<open>try\<close> block.
\<close>

lemma bootstrap_failure_propagates:
  assumes "ensureAuth a h = (Inl e, h1)"
  shows "findOne a model w h = (Inl e, h1)" and "count a model w h = (Inl e, h1)"
    and "update a model w upd h = (Inl e, h1)" and "create a model d h = (Inl e, h1)"
  using assms by (simp_all add: findOne_def count_def update_def create_def)

section \<open>Properties of the operations\<close>

lemma call_getList_simps:
  "fst (call_getList a c pg pp f s h) = coll_getList (pb a) (store h) (authStore_token h) c pg pp f s"
  "snd (call_getList a c pg pp f s h) = h\<lparr>calls := calls h @ [Call_getList c pg pp f s]\<rparr>"
  by (simp_all add: call_getList_def)

lemma create_after_boot:
  assumes "ensureAuth a h = (Inr (), h1)"
  shows "create a model d h = call_create a (getModelName a model) d h1"
  using assms by (simp add: create_def split: prod.split sum.split)

lemma findOne_after_boot:
  assumes "ensureAuth a h = (Inr (), h1)"
  shows "findOne a model w h =
    (case fst (call_getList a (getModelName a model) 1 1 (Some (parseWhere (numberText a) w)) None h1) of
       Inr result \<Rightarrow> Inr (case items result of [] \<Rightarrow> None | r # rs \<Rightarrow> Some r)
     | Inl error \<Rightarrow> Inr None,
     snd (call_getList a (getModelName a model) 1 1 (Some (parseWhere (numberText a) w)) None h1))"
  using assms by (simp add: findOne_def call_getList_def split: sum.split)

lemma findMany_after_boot:
  assumes "ensureAuth a h = (Inr (), h1)"
  shows "findMany a model w limit offset sortBy h =
    (case fst (call_getList a (getModelName a model) (page offset limit) (perPage limit)
            (orUndefined (parseWhere (numberText a) w)) (sortText sortBy) h1) of
       Inr result \<Rightarrow> Inr (items result)
     | Inl error \<Rightarrow> Inr [],
     snd (call_getList a (getModelName a model) (page offset limit) (perPage limit)
            (orUndefined (parseWhere (numberText a) w)) (sortText sortBy) h1))"
  using assms by (simp add: findMany_def call_getList_def split: sum.split)

lemma count_after_boot:
  assumes "ensureAuth a h = (Inr (), h1)"
  shows "count a model w h =
    (case fst (call_getList a (getModelName a model) 1 1
            (orUndefined (parseWhere (numberText a) w)) None h1) of
       Inr result \<Rightarrow> Inr (totalItems result)
     | Inl error \<Rightarrow> Inr 0,
     snd (call_getList a (getModelName a model) 1 1
            (orUndefined (parseWhere (numberText a) w)) None h1))"
  using assms by (simp add: count_def call_getList_def split: sum.split)

lemma update_after_boot:
  assumes "ensureAuth a h = (Inr (), h1)"
    and "h2 = snd (call_getList a (getModelName a model) 1 1 (Some (parseWhere (numberText a) w)) None h1)"
  shows "update a model w upd h =
    (case fst (call_getList a (getModelName a model) 1 1 (Some (parseWhere (numberText a) w)) None h1) of
       Inl error \<Rightarrow> (Inr None, h2)
     | Inr result \<Rightarrow>
         (case items result of
            [] \<Rightarrow> (Inr None, h2)
          | r # rs \<Rightarrow>
              (case fst (call_update a (getModelName a model) (r ''id'') upd h2) of
                 Inl error \<Rightarrow> Inr None
               | Inr updated \<Rightarrow> Inr (Some (updated ++ upd)),
               snd (call_update a (getModelName a model) (r ''id'') upd h2))))"
  using assms by (auto simp add: update_def call_getList_def Let_def split: sum.splits list.splits prod.splits)

lemma updateMany_after_boot:
  assumes "ensureAuth a h = (Inr (), h1)"
    and "h2 = snd (call_getList a (getModelName a model) 1 500
            (orUndefined (parseWhere (numberText a) w)) None h1)"
  shows "updateMany a model w upd h =
    (case fst (call_getList a (getModelName a model) 1 500
            (orUndefined (parseWhere (numberText a) w)) None h1) of
       Inl error \<Rightarrow> (Inr 0, h2)
     | Inr result \<Rightarrow>
         (case fst (updateLoop a (getModelName a model) upd (items result) 0 h2) of
            Inl error \<Rightarrow> Inr 0
          | Inr n \<Rightarrow> Inr n,
          snd (updateLoop a (getModelName a model) upd (items result) 0 h2)))"
  using assms by (auto simp add: updateMany_def call_getList_def Let_def split: sum.splits prod.splits)

lemma delete_after_boot:
  assumes "ensureAuth a h = (Inr (), h1)"
    and "h2 = snd (call_getList a (getModelName a model) 1 1 (Some (parseWhere (numberText a) w)) None h1)"
  shows "delete a model w h =
    (Inr (),
     case fst (call_getList a (getModelName a model) 1 1 (Some (parseWhere (numberText a) w)) None h1) of
       Inl error \<Rightarrow> h2
     | Inr result \<Rightarrow>
         (case items result of
            [] \<Rightarrow> h2
          | r # rs \<Rightarrow> snd (call_delete a (getModelName a model) (r ''id'') h2)))"
  using assms by (auto simp add: delete_def call_getList_def Let_def split: sum.splits list.splits prod.splits)

lemma deleteMany_after_boot:
  assumes "ensureAuth a h = (Inr (), h1)"
    and "h2 = snd (call_getList a (getModelName a model) 1 500
            (orUndefined (parseWhere (numberText a) w)) None h1)"
  shows "deleteMany a model w h =
    (case fst (call_getList a (getModelName a model) 1 500
            (orUndefined (parseWhere (numberText a) w)) None h1) of
       Inl error \<Rightarrow> (Inr 0, h2)
     | Inr result \<Rightarrow>
         (case fst (deleteLoop a (getModelName a model) (items result) 0 h2) of
            Inl error \<Rightarrow> Inr 0
          | Inr n \<Rightarrow> Inr n,
          snd (deleteLoop a (getModelName a model) (items result) 0 h2)))"
  using assms by (auto simp add: deleteMany_def call_getList_def Let_def split: sum.splits prod.splits)








text \<open>
  C4. The list request of findMany carries the page \<open>floor(offset / pageSize) + 1\<close>
  when an offset is given and 1 otherwise, where the page size is the limit, or 50
  when no limit (or the limit 0) is given: offset 0 with limit 50 is page 1, offset 50
  with limit 50 is page 2, offset 25 with limit 50 is page 1.
\<close>

theorem findMany_page_number:
  assumes "ensureAuth a h = (Inr (), h')"
    and "pageSize = (case limit of None \<Rightarrow> 50 | Some l \<Rightarrow> if l = 0 then 50 else l)"
  shows "calls (snd (findMany a model w limit offset sortBy h)) =
      calls h' @ [Call_getList (getModelName a model)
        (case offset of None \<Rightarrow> 1 | Some off \<Rightarrow> off div pageSize + 1) pageSize
        (orUndefined (parseWhere (numberText a) w)) (sortText sortBy)]
    \<and> page (Some 0) (Some 50) = 1
    \<and> page (Some 50) (Some 50) = 2
    \<and> page (Some 25) (Some 50) = 1"
proof -
  have pg: "page offset limit = (case offset of None \<Rightarrow> 1 | Some off \<Rightarrow> off div pageSize + 1)"
    by (simp add: page_def orDefault_def assms(2) split: option.split)
  have pp: "perPage limit = pageSize"
    by (simp add: perPage_def orDefault_def assms(2))
  have "calls (snd (findMany a model w limit offset sortBy h)) =
      calls h' @ [Call_getList (getModelName a model) (page offset limit) (perPage limit)
        (orUndefined (parseWhere (numberText a) w)) (sortText sortBy)]"
    by (simp add: findMany_after_boot [OF assms(1)] call_getList_simps)
  then show ?thesis
    by (simp add: pg pp) (simp add: page_def orDefault_def)
qed

theorem findMany_page_number_witness:
  "calls (snd (findMany (mock_adapter Instance (Inr \<lparr>items = [], totalItems = 0\<rparr>) False)
      ''user'' None (Some 50) (Some 50) None fresh)) =
    [Call_getList ''user'' 2 50 None None]
   \<and> calls (snd (findMany (mock_adapter Instance (Inr \<lparr>items = [], totalItems = 0\<rparr>) False)
      ''user'' None (Some 50) (Some 25) None fresh)) =
    [Call_getList ''user'' 1 50 None None]
   \<and> calls (snd (findMany (mock_adapter Instance (Inr \<lparr>items = [], totalItems = 0\<rparr>) False)
      ''user'' None None None None fresh)) =
    [Call_getList ''user'' 1 50 None None]"
proof -
  let ?A = "mock_adapter Instance (Inr \<lparr>items = [], totalItems = 0\<rparr>) False"
  have gm: "getModelName ?A ''user'' = ''user''"
    by (simp add: mock_adapter_def)
  have f: "orUndefined (parseWhere (numberText ?A) None) = None"
    by (simp add: orUndefined_def parseWhere_def)
  have s: "sortText None = None"
    by (simp add: sortText_def)
  from findMany_page_number [where a = ?A and h = fresh and h' = fresh and limit = "Some 50"
      and offset = "Some 50" and w = None and model = "''user''" and sortBy = None
      and pageSize = 50, OF mock_boot]
    findMany_page_number [where a = ?A and h = fresh and h' = fresh and limit = "Some 50"
      and offset = "Some 25" and w = None and model = "''user''" and sortBy = None
      and pageSize = 50, OF mock_boot]
    findMany_page_number [where a = ?A and h = fresh and h' = fresh and limit = None
      and offset = None and w = None and model = "''user''" and sortBy = None
      and pageSize = 50, OF mock_boot]
  show ?thesis
    by (simp add: gm f s fresh_def)
qed

text \<open>
  C10. A limit of 0 is treated as an absent limit: the list request of findMany
  then asks for pages of 50 records and the page number is computed with the divisor
  50; findMany with the limit 0 is findMany without a limit. No limit makes the page
  size 0.
\<close>

theorem findMany_limit_zero:
  assumes "ensureAuth a h = (Inr (), h')"
  shows "calls (snd (findMany a model w (Some 0) offset sortBy h)) =
      calls h' @ [Call_getList (getModelName a model)
        (case offset of None \<Rightarrow> 1 | Some off \<Rightarrow> off div 50 + 1) 50
        (orUndefined (parseWhere (numberText a) w)) (sortText sortBy)]
    \<and> findMany a model w (Some 0) offset sortBy h = findMany a model w None offset sortBy h
    \<and> perPage limit \<noteq> 0"
proof -
  have pg: "page offset (Some 0) = (case offset of None \<Rightarrow> 1 | Some off \<Rightarrow> off div 50 + 1)"
    by (simp add: page_def orDefault_def split: option.split)
  have pg': "page offset (Some 0) = page offset None"
    by (simp add: page_def orDefault_def split: option.split)
  have pp: "perPage (Some 0) = 50" "perPage None = 50"
    by (simp_all add: perPage_def orDefault_def)
  have nz: "perPage limit \<noteq> 0"
    by (simp add: perPage_def orDefault_def split: option.split)
  have "calls (snd (findMany a model w (Some 0) offset sortBy h)) =
      calls h' @ [Call_getList (getModelName a model) (page offset (Some 0)) (perPage (Some 0))
        (orUndefined (parseWhere (numberText a) w)) (sortText sortBy)]"
    by (simp add: findMany_after_boot [OF assms(1)] call_getList_simps)
  moreover have "findMany a model w (Some 0) offset sortBy h = findMany a model w None offset sortBy h"
    unfolding findMany_def pg' pp by (rule refl)
  ultimately show ?thesis
    using nz by (simp add: pg pp)
qed

theorem findMany_limit_zero_witness:
  "calls (snd (findMany (mock_adapter Instance (Inr \<lparr>items = [], totalItems = 0\<rparr>) False)
      ''user'' None (Some 0) (Some 120) None fresh)) =
    [Call_getList ''user'' 3 50 None None]"
proof -
  let ?A = "mock_adapter Instance (Inr \<lparr>items = [], totalItems = 0\<rparr>) False"
  have gm: "getModelName ?A ''user'' = ''user''"
    by (simp add: mock_adapter_def)
  have f: "orUndefined (parseWhere (numberText ?A) None) = None"
    by (simp add: orUndefined_def parseWhere_def)
  have s: "sortText None = None"
    by (simp add: sortText_def)
  from findMany_limit_zero [where a = ?A and h = fresh and h' = fresh
      and offset = "Some 120" and w = None and model = "''user''" and sortBy = None,
      OF mock_boot, THEN conjunct1]
  show ?thesis
    by (simp add: gm f s fresh_def)
qed

text \<open>
  C7, as the code has it. When the bootstrap has returned, count makes one list
  request, for page 1 with page size 1 and the compiled filter (sent as absent when
  the compiled filter is the empty string), and returns the \<open>totalItems\<close> field of
  the answer, whatever the number of items on the page; it returns 0 when the request
  throws. When the login of the bootstrap throws, count makes no list request and
  throws that value.
\<close>

theorem count_returns_totalItems:
  assumes "c = getModelName a model"
    and "f = parseWhere (numberText a) w"
    and "sent = (if f = '''' then None else Some f)"
  shows "(ensureAuth a h = (Inl eb, h') \<longrightarrow> count a model w h = (Inl eb, h'))
    \<and> (ensureAuth a h = (Inr (), h') \<longrightarrow>
         calls (snd (count a model w h)) = calls h' @ [Call_getList c 1 1 sent None]
         \<and> (coll_getList (pb a) (store h') (authStore_token h') c 1 1 sent None = Inr res \<longrightarrow>
              fst (count a model w h) = Inr (totalItems res))
         \<and> (coll_getList (pb a) (store h') (authStore_token h') c 1 1 sent None = Inl e \<longrightarrow>
              fst (count a model w h) = Inr 0))"
proof -
  have sent: "orUndefined f = sent"
    by (simp add: orUndefined_def assms(3))
  have A: "count a model w h = (Inl eb, h')" if "ensureAuth a h = (Inl eb, h')"
    by (rule bootstrap_failure_propagates(2) [OF that])
  have B: "calls (snd (count a model w h)) = calls h' @ [Call_getList c 1 1 sent None]
      \<and> (coll_getList (pb a) (store h') (authStore_token h') c 1 1 sent None = Inr res \<longrightarrow>
           fst (count a model w h) = Inr (totalItems res))
      \<and> (coll_getList (pb a) (store h') (authStore_token h') c 1 1 sent None = Inl e \<longrightarrow>
           fst (count a model w h) = Inr 0)"
    if boot: "ensureAuth a h = (Inr (), h')"
    by (simp add: count_after_boot [OF boot] call_getList_simps assms(1) assms(2) [symmetric] sent)
  show ?thesis
    by (rule conjI; rule impI; (rule A | rule B); assumption)
qed

theorem count_returns_totalItems_witness:
  \<open>calls (snd (count (mock_adapter Instance (Inr \<lparr>items = [user1], totalItems = 7\<rparr>) False)
      ''user'' (Some [status_eq_active]) fresh)) =
      [Call_getList ''user'' 1 1 (Some ''status = "active"'') None]
   \<and> fst (count (mock_adapter Instance (Inr \<lparr>items = [user1], totalItems = 7\<rparr>) False)
      ''user'' (Some [status_eq_active]) fresh) = Inr 7
   \<and> int (length (items \<lparr>items = [user1], totalItems = 7\<rparr>)) = 1
   \<and> fst (count (mock_adapter Instance (Inl ''list failed'') False)
      ''user'' (Some [status_eq_active]) fresh) = Inr 0
   \<and> count (locked_adapter (Inr \<lparr>items = [user1], totalItems = 7\<rparr>))
      ''user'' (Some [status_eq_active]) fresh =
      (Inl ''login failed'',
       fresh\<lparr>calls := [Call_authWithPassword ''_superusers'' ''admin@example.com'' ''secret'']\<rparr>)\<close>
proof -
  let ?A = "mock_adapter Instance (Inr \<lparr>items = [user1], totalItems = 7\<rparr>) False"
  let ?B = "mock_adapter Instance (Inl ''list failed'') False"
  let ?L = "locked_adapter (Inr \<lparr>items = [user1], totalItems = 7\<rparr>)"
  let ?hl = "fresh\<lparr>calls := [Call_authWithPassword ''_superusers'' ''admin@example.com'' ''secret'']\<rparr>"
  have gm: "''user'' = getModelName (mock_adapter Instance la False) ''user''" for la
    by (simp add: mock_adapter_def)
  have gml: "''user'' = getModelName ?L ''user''"
    by (simp add: locked_adapter_def)
  have pw: \<open>parseWhere decimal (Some [status_eq_active]) = ''status = "active"''\<close>
    by code_simp
  have nt: \<open>''status = "active"'' = parseWhere (numberText (mock_adapter Instance la False))
      (Some [status_eq_active])\<close> for la
    by (simp add: mock_adapter_def pw)
  have ntl: \<open>''status = "active"'' = parseWhere (numberText ?L) (Some [status_eq_active])\<close>
    by (simp add: locked_adapter_def pw)
  have se: \<open>Some ''status = "active"'' =
      (if ''status = "active"'' = '''' then None else Some ''status = "active"'')\<close>
    by simp
  have bootl: "ensureAuth ?L fresh = (Inl ''login failed'', ?hl)"
    by (simp add: ensureAuth_def locked_adapter_def truthy_def call_authWithPassword_def
        mock_pb_def fresh_def)
  have t1: "coll_getList (pb ?A) db t ''user'' pg pp fl so =
      Inr \<lparr>items = [user1], totalItems = 7\<rparr>" for db t pg pp fl so
    by (simp add: mock_adapter_def mock_pb_def)
  have t2: "coll_getList (pb ?B) db t ''user'' pg pp fl so = Inl ''list failed''" for db t pg pp fl so
    by (simp add: mock_adapter_def mock_pb_def)
  note A = count_returns_totalItems [where a = ?A and h = fresh and h' = fresh
      and res = "\<lparr>items = [user1], totalItems = 7\<rparr>",
      OF gm nt se, THEN conjunct2, rule_format, OF mock_boot]
  note B = count_returns_totalItems [where a = ?B and h = fresh and h' = fresh
      and e = "''list failed''", OF gm nt se, THEN conjunct2, rule_format, OF mock_boot]
  note L = count_returns_totalItems [where a = ?L and h = fresh and h' = ?hl
      and eb = "''login failed''", OF gml ntl se, THEN conjunct1, rule_format, OF bootl]
  have a: \<open>calls (snd (count ?A ''user'' (Some [status_eq_active]) fresh)) =
      [Call_getList ''user'' 1 1 (Some ''status = "active"'') None]\<close>
    using A by (simp add: fresh_def)
  have b: "fst (count ?A ''user'' (Some [status_eq_active]) fresh) = Inr 7"
    using A t1 by simp
  have c: "fst (count ?B ''user'' (Some [status_eq_active]) fresh) = Inr 0"
    using B t2 by simp
  show ?thesis using a b c L by simp
qed

text \<open>
  The claim C7 as it is written fails when the login of the bootstrap throws: count
  then makes no list request and throws instead of returning 0. And without
  conditions the list request of count carries no filter, not the empty compiled
  filter.
\<close>

theorem count_login_failure_counterexample:
  "count (locked_adapter (Inr \<lparr>items = [user1], totalItems = 7\<rparr>)) ''user'' None fresh =
      (Inl ''login failed'',
       fresh\<lparr>calls := [Call_authWithPassword ''_superusers'' ''admin@example.com'' ''secret'']\<rparr>)
   \<and> calls (snd (count (mock_adapter Instance (Inr \<lparr>items = [user1], totalItems = 7\<rparr>) False)
        ''user'' None fresh)) = [Call_getList ''user'' 1 1 None None]"
  by (simp add: count_def ensureAuth_def locked_adapter_def mock_adapter_def truthy_def
      call_authWithPassword_def call_getList_def mock_pb_def fresh_def parseWhere_def
      orUndefined_def)

text \<open>
  C8. When the list request of update finds no record, update returns null; after
  the bootstrap it has made that one list request and no other call, so no create,
  update or delete call is issued and the record store is the one it started from.
\<close>

theorem update_without_match:
  assumes "ensureAuth a h = (Inr (), h')"
    and "c = getModelName a model"
    and "f = parseWhere (numberText a) w"
    and "fst (call_getList a c 1 1 (Some f) None h') = Inr res"
    and "items res = []"
  shows "fst (update a model w upd h) = Inr None
    \<and> calls (snd (update a model w upd h)) = calls h' @ [Call_getList c 1 1 (Some f) None]
    \<and> filter isWriteCall (calls (snd (update a model w upd h))) = filter isWriteCall (calls h)
    \<and> store (snd (update a model w upd h)) = store h"
proof -
  have u: "update a model w upd h = (Inr None, snd (call_getList a c 1 1 (Some f) None h'))"
    using assms(4,5) by (simp add: update_after_boot [OF assms(1) refl] assms(2,3))
  have s: "store h' = store h"
    using ensureAuth_store [of a h] by (simp add: assms(1))
  have wr: "filter isWriteCall (calls h') = filter isWriteCall (calls h)"
    using ensureAuth_writes [of a h] by (simp add: assms(1))
  show ?thesis
    by (simp add: u call_getList_simps s wr)
qed

theorem update_without_match_witness:
  \<open>fst (update (mock_adapter Instance (Inr \<lparr>items = [], totalItems = 0\<rparr>) False)
      ''user'' (Some [status_eq_active]) patch fresh) = Inr None
   \<and> calls (snd (update (mock_adapter Instance (Inr \<lparr>items = [], totalItems = 0\<rparr>) False)
      ''user'' (Some [status_eq_active]) patch fresh)) =
      [Call_getList ''user'' 1 1 (Some ''status = "active"'') None]
   \<and> store (snd (update (mock_adapter Instance (Inr \<lparr>items = [], totalItems = 0\<rparr>) False)
      ''user'' (Some [status_eq_active]) patch fresh)) = 0\<close>
proof -
  let ?A = "mock_adapter Instance (Inr \<lparr>items = [], totalItems = 0\<rparr>) False"
  have gm: "''user'' = getModelName ?A ''user''"
    by (simp add: mock_adapter_def)
  have pw: \<open>parseWhere decimal (Some [status_eq_active]) = ''status = "active"''\<close>
    by code_simp
  have nt: \<open>''status = "active"'' = parseWhere (numberText ?A) (Some [status_eq_active])\<close>
    by (simp add: mock_adapter_def pw)
  have t: \<open>fst (call_getList ?A ''user'' 1 1 (Some ''status = "active"'') None fresh) =
      Inr \<lparr>items = [], totalItems = 0\<rparr>\<close>
    by (simp add: call_getList_def mock_adapter_def mock_pb_def)
  have i: "items \<lparr>items = [], totalItems = 0\<rparr> = ([] :: string pbRecord list)"
    by simp
  from update_without_match [where upd = patch, OF mock_boot gm nt t i]
  show ?thesis
    by (simp add: fresh_def)
qed

lemma sessionOf_calls:
  "sessionOf (snd (call_create a c d h)) = sessionOf h"
  "sessionOf (snd (call_getList a c pg pp fl so h)) = sessionOf h"
  "sessionOf (snd (call_update a c i d h)) = sessionOf h"
  "sessionOf (snd (call_delete a c i h)) = sessionOf h"
  by (simp_all add: sessionOf_def call_create_def call_getList_def call_update_def
      call_delete_def split: prod.split)

lemma sessionOf_updateLoop:
  "sessionOf (snd (updateLoop a c upd rs n h)) = sessionOf h"
proof (induction rs arbitrary: n h)
  case Nil
  show ?case by simp
next
  case (Cons r rs)
  show ?case
  proof (cases "call_update a c (r ''id'') upd h")
    case (Pair res h2)
    have "sessionOf h2 = sessionOf h"
      using sessionOf_calls(3) [of a c "r ''id''" upd h] by (simp add: Pair)
    then show ?thesis
      by (cases res) (simp_all add: Pair Cons.IH)
  qed
qed

lemma sessionOf_deleteLoop:
  "sessionOf (snd (deleteLoop a c rs n h)) = sessionOf h"
proof (induction rs arbitrary: n h)
  case Nil
  show ?case by simp
next
  case (Cons r rs)
  show ?case
  proof (cases "call_delete a c (r ''id'') h")
    case (Pair res h2)
    have "sessionOf h2 = sessionOf h"
      using sessionOf_calls(4) [of a c "r ''id''" h] by (simp add: Pair)
    then show ?thesis
      by (cases res) (simp_all add: Pair Cons.IH)
  qed
qed

lemma sessionOf_perform:
  assumes "pbConfig a = Instance"
  shows "sessionOf (perform a r h) = sessionOf h"
proof -
  note boot = ensureAuth_Instance [OF assms, of h]
  show ?thesis
  proof (cases r)
    case (Create m d)
    then show ?thesis by (simp add: create_after_boot [OF boot] sessionOf_calls)
  next
    case (FindOne m w)
    then show ?thesis by (simp add: findOne_after_boot [OF boot] sessionOf_calls)
  next
    case (FindMany m w l off s)
    then show ?thesis by (simp add: findMany_after_boot [OF boot] sessionOf_calls)
  next
    case (Count m w)
    then show ?thesis by (simp add: count_after_boot [OF boot] sessionOf_calls)
  next
    case (Update m w d)
    then show ?thesis
      by (simp add: update_after_boot [OF boot refl] sessionOf_calls split: sum.split list.split)
  next
    case (UpdateMany m w d)
    then show ?thesis
      by (simp add: updateMany_after_boot [OF boot refl] sessionOf_calls sessionOf_updateLoop
          split: sum.split)
  next
    case (Delete m w)
    then show ?thesis
      by (simp add: delete_after_boot [OF boot refl] sessionOf_calls split: sum.split list.split)
  next
    case (DeleteMany m w)
    then show ?thesis
      by (simp add: deleteMany_after_boot [OF boot refl] sessionOf_calls sessionOf_deleteLoop
          split: sum.split)
  qed
qed

lemma sessionOf_run:
  assumes "pbConfig a = Instance"
  shows "sessionOf (run a reqs h) = sessionOf h"
  by (induction reqs arbitrary: h) (simp_all add: sessionOf_perform [OF assms])

text \<open>
  C9. For an adapter constructed from a live client instance the bootstrap returns at
  once and leaves the handle as it is, and over every sequence of requests no token
  is saved and no login is made: the token of the session and the bootstrap calls in
  the log stay what they were.
\<close>

theorem live_instance_never_authenticates:
  assumes "pbConfig a = Instance"
  shows "ensureAuth a h = (Inr (), h)
    \<and> authStore_token (run a reqs h) = authStore_token h
    \<and> filter isAuthCall (calls (run a reqs h)) = filter isAuthCall (calls h)"
  using sessionOf_run [OF assms, of reqs h] ensureAuth_Instance [OF assms, of h]
  by (simp add: sessionOf_def)

theorem live_instance_never_authenticates_witness:
  "pbConfig (mock_adapter Instance (Inr \<lparr>items = [user1], totalItems = 1\<rparr>) False) = Instance
   \<and> authStore_token (run (mock_adapter Instance (Inr \<lparr>items = [user1], totalItems = 1\<rparr>) False)
        [Create ''user'' user1, FindOne ''user'' None, UpdateMany ''user'' None patch,
         Delete ''user'' None, Count ''user'' None] fresh) = ''''
   \<and> filter isAuthCall (calls (run (mock_adapter Instance (Inr \<lparr>items = [user1], totalItems = 1\<rparr>) False)
        [Create ''user'' user1, FindOne ''user'' None, UpdateMany ''user'' None patch,
         Delete ''user'' None, Count ''user'' None] fresh)) = []"
proof -
  let ?A = "mock_adapter Instance (Inr \<lparr>items = [user1], totalItems = 1\<rparr>) False"
  let ?R = "[Create ''user'' user1, FindOne ''user'' None, UpdateMany ''user'' None patch,
         Delete ''user'' None, Count ''user'' None]"
  have c: "pbConfig ?A = Instance"
    by (simp add: mock_adapter_def)
  have f: "authStore_token fresh = ''''" "calls fresh = []"
    by (simp_all add: fresh_def)
  from live_instance_never_authenticates [OF c, where h = fresh and reqs = ?R]
  have "authStore_token (run ?A ?R fresh) = authStore_token fresh
    \<and> filter isAuthCall (calls (run ?A ?R fresh)) = filter isAuthCall (calls fresh)"
    by blast
  then have "authStore_token (run ?A ?R fresh) = ''''
    \<and> filter isAuthCall (calls (run ?A ?R fresh)) = []"
    by (simp only: f filter.simps)
  then show ?thesis using c by blast
qed

text \<open>
  For contrast, an adapter constructed from connection parameters with a token does
  save the token on the first operation, and update without a match then leaves the
  record store, but not the session, as it was.
\<close>

lemma params_token_is_saved:
  "ensureAuth (mock_adapter (Params ''http://127.0.0.1:8090'' None None (Some ''t'')) la fails) fresh =
    (Inr (), fresh\<lparr>authStore_token := ''t'', calls := [Call_save ''t'']\<rparr>)"
  by (simp add: ensureAuth_def mock_adapter_def truthy_def call_save_def fresh_def)

end
